theory Spec2Isabelle
  imports Complex_Main
begin

section \<open>The room connection manager of app.py\<close>

text \<open>
  The model follows \<^verbatim>\<open>src/app.py\<close>, lines 17 to 119: the classes \<^verbatim>\<open>Client\<close> and
  \<^verbatim>\<open>ConnectionManager\<close> and the handler \<^verbatim>\<open>ws_endpoint\<close>.

  \<^item> A WebSocket object is an opaque handle, a natural number; \<^verbatim>\<open>c.ws is not ws\<close> compares
    handles.
  \<^item> Whether \<^verbatim>\<open>send_json\<close> raises is not decided by the program: every broadcast takes a
    predicate on handles that says which sends raise. The outcome of a send is thereby a
    function of the socket during one broadcast, so \<^verbatim>\<open>c not in dead\<close> (object identity in
    Python) and membership in the list of dead clients agree.
  \<^item> \<^verbatim>\<open>datetime.utcnow().isoformat()\<close> is a string handed to the operation that reads the clock.
  \<^item> The sends that succeed are the observable output, a list of \<open>Sent\<close> effects in the
    order they happen. The \<^verbatim>\<open>print\<close> lines are not modelled.
  \<^item> Every operation runs to its end before the next one starts: the interleaving of
    coroutines at an \<^verbatim>\<open>await\<close> is outside this model.
  \<^item> Characters are the code points below 256.
\<close>

subsection \<open>JSON values and Python's view of them\<close>

datatype json =
    JNull
  | JBool bool
  | JInt int
  | JFloat real
  | JStr string
  | JArr "json list"
  | JObj "(string \<times> json) list"

text \<open>
  \<^verbatim>\<open>data.get(key)\<close> on a decoded object: the value, or \<^verbatim>\<open>None\<close> when the key is missing.
  The pairs of a decoded object have distinct keys.
\<close>

definition dict_get :: "(string \<times> json) list \<Rightarrow> string \<Rightarrow> json" where
  "dict_get kvs k = (case map_of kvs k of None \<Rightarrow> JNull | Some v \<Rightarrow> v)"

text \<open>Python's truth value of a decoded JSON value, as \<^verbatim>\<open>or\<close> tests it.\<close>

fun truthy :: "json \<Rightarrow> bool" where
  "truthy JNull = False"
| "truthy (JBool b) = b"
| "truthy (JInt i) = (i \<noteq> 0)"
| "truthy (JFloat r) = (r \<noteq> 0)"
| "truthy (JStr s) = (s \<noteq> [])"
| "truthy (JArr xs) = (xs \<noteq> [])"
| "truthy (JObj kvs) = (kvs \<noteq> [])"

definition py_or :: "json \<Rightarrow> json \<Rightarrow> json" where
  "py_or a b = (if truthy a then a else b)"

text \<open>\<^verbatim>\<open>str.isspace\<close> for one character, on the code points below 256.\<close>

definition isspace :: "char \<Rightarrow> bool" where
  "isspace c = (of_char c \<in> set [9, 10, 11, 12, 13, 28, 29, 30, 31, 32, 133, 160 :: nat])"

text \<open>\<^verbatim>\<open>str.strip()\<close>: whitespace is dropped at both ends.\<close>

definition strip :: "string \<Rightarrow> string" where
  "strip s = rev (dropWhile isspace (rev (dropWhile isspace s)))"

subsection \<open>Clients and the registry\<close>

record Client =
  username :: string
  ws :: nat

record ConnectionManager =
  rooms :: "string \<rightharpoonup> Client list"

text \<open>\<^verbatim>\<open>ConnectionManager.__init__\<close>\<close>

definition init_manager :: ConnectionManager where
  "init_manager = \<lparr>rooms = Map.empty\<rparr>"

text \<open>\<^verbatim>\<open>_get_clients\<close>: \<^verbatim>\<open>self.rooms.get(room, [])\<close>\<close>

definition get_clients :: "ConnectionManager \<Rightarrow> string \<Rightarrow> Client list" where
  "get_clients m room = (case rooms m room of None \<Rightarrow> [] | Some cs \<Rightarrow> cs)"

text \<open>\<^verbatim>\<open>_get_usernames\<close>\<close>

definition get_usernames :: "ConnectionManager \<Rightarrow> string \<Rightarrow> string list" where
  "get_usernames m room = map username (get_clients m room)"

subsection \<open>Outbound messages\<close>

definition system_msg :: "string \<Rightarrow> string \<Rightarrow> json" where
  "system_msg text now =
     JObj [(''type'', JStr ''system''), (''message'', JStr text), (''time'', JStr now)]"

definition userlist_msg :: "string list \<Rightarrow> json" where
  "userlist_msg users = JObj [(''type'', JStr ''userlist''), (''users'', JArr (map JStr users))]"

definition chat_msg :: "string \<Rightarrow> string \<Rightarrow> string \<Rightarrow> json" where
  "chat_msg uname text now =
     JObj [(''type'', JStr ''chat''), (''username'', JStr uname), (''message'', JStr text),
           (''time'', JStr now)]"

definition file_msg :: "string \<Rightarrow> json \<Rightarrow> json \<Rightarrow> json \<Rightarrow> string \<Rightarrow> json" where
  "file_msg uname url filename mimetype now =
     JObj [(''type'', JStr ''file''), (''username'', JStr uname), (''url'', url),
           (''filename'', filename), (''mimetype'', mimetype), (''time'', JStr now)]"

subsection \<open>Broadcast\<close>

datatype effect = Sent nat json

text \<open>
  The \<^verbatim>\<open>for c in clients\<close> loop of \<^verbatim>\<open>broadcast\<close>: a send that raises appends the client to
  \<open>dead\<close>, a send that returns is an effect.
\<close>

fun send_loop ::
  "(nat \<Rightarrow> bool) \<Rightarrow> json \<Rightarrow> Client list \<Rightarrow> Client list \<Rightarrow> effect list
     \<Rightarrow> Client list \<times> effect list" where
  "send_loop fails message [] dead out = (dead, out)"
| "send_loop fails message (c # cs) dead out =
     (if fails (ws c) then send_loop fails message cs (dead @ [c]) out
      else send_loop fails message cs dead (out @ [Sent (ws c) message]))"

definition broadcast ::
  "ConnectionManager \<Rightarrow> string \<Rightarrow> json \<Rightarrow> (nat \<Rightarrow> bool) \<Rightarrow> ConnectionManager \<times> effect list" where
  "broadcast m room message fails =
     (let clients = get_clients m room;
          (dead, out) = send_loop fails message clients [] []
      in (if dead \<noteq> []
          then m\<lparr>rooms := (rooms m)(room \<mapsto> filter (\<lambda>c. c \<notin> set dead) clients)\<rparr>
          else m,
          out))"

definition broadcast_userlist ::
  "ConnectionManager \<Rightarrow> string \<Rightarrow> (nat \<Rightarrow> bool) \<Rightarrow> ConnectionManager \<times> effect list" where
  "broadcast_userlist m room fails =
     (let users = get_usernames m room in broadcast m room (userlist_msg users) fails)"

subsection \<open>Connect and disconnect\<close>

datatype error = AcceptFailed

text \<open>Lines 35 and 36 of \<^verbatim>\<open>connect\<close>: \<^verbatim>\<open>setdefault\<close>, then \<^verbatim>\<open>append\<close> on the room's list.\<close>

definition connect_register ::
  "ConnectionManager \<Rightarrow> string \<Rightarrow> string \<Rightarrow> nat \<Rightarrow> ConnectionManager" where
  "connect_register m room uname w =
     m\<lparr>rooms := (rooms m)(room \<mapsto> get_clients m room @ [\<lparr>username = uname, ws = w\<rparr>])\<rparr>"

text \<open>\<^verbatim>\<open>connect\<close> after \<^verbatim>\<open>ws.accept()\<close> has returned: lines 35 to 43.\<close>

definition connect_accepted ::
  "ConnectionManager \<Rightarrow> string \<Rightarrow> string \<Rightarrow> nat \<Rightarrow> string \<Rightarrow> (nat \<Rightarrow> bool) \<Rightarrow> (nat \<Rightarrow> bool)
     \<Rightarrow> ConnectionManager \<times> effect list" where
  "connect_accepted m room uname w now fails1 fails2 =
     (let m1 = connect_register m room uname w;
          (m2, out1) = broadcast_userlist m1 room fails1;
          (m3, out2) = broadcast m2 room (system_msg (uname @ '' bergabung ke grup'') now) fails2
      in (m3, out1 @ out2))"

text \<open>\<^verbatim>\<open>connect\<close>: an \<^verbatim>\<open>accept\<close> that raises leaves the registry as it is.\<close>

definition connect ::
  "ConnectionManager \<Rightarrow> string \<Rightarrow> string \<Rightarrow> nat \<Rightarrow> bool \<Rightarrow> string \<Rightarrow> (nat \<Rightarrow> bool)
     \<Rightarrow> (nat \<Rightarrow> bool) \<Rightarrow> error + ConnectionManager \<times> effect list" where
  "connect m room uname w accepted now fails1 fails2 =
     (if accepted then Inr (connect_accepted m room uname w now fails1 fails2)
      else Inl AcceptFailed)"

text \<open>Lines 46 to 52 of \<^verbatim>\<open>disconnect\<close>: the removal from the registry.\<close>

definition disconnect_remove :: "ConnectionManager \<Rightarrow> string \<Rightarrow> nat \<Rightarrow> ConnectionManager" where
  "disconnect_remove m room w =
     (let clients = filter (\<lambda>c. ws c \<noteq> w) (get_clients m room)
      in if clients \<noteq> [] then m\<lparr>rooms := (rooms m)(room \<mapsto> clients)\<rparr>
         else m\<lparr>rooms := (rooms m)(room := None)\<rparr>)"

definition disconnect ::
  "ConnectionManager \<Rightarrow> string \<Rightarrow> string \<Rightarrow> nat \<Rightarrow> string \<Rightarrow> (nat \<Rightarrow> bool) \<Rightarrow> (nat \<Rightarrow> bool)
     \<Rightarrow> ConnectionManager \<times> effect list" where
  "disconnect m room uname w now fails1 fails2 =
     (let m1 = disconnect_remove m room w;
          (m2, out1) = broadcast m1 room (system_msg (uname @ '' keluar dari grup'') now) fails1;
          (m3, out2) = broadcast_userlist m2 room fails2
      in (m3, out1 @ out2))"

subsection \<open>The session handler\<close>

datatype session = ACTIVE | TERMINATED

text \<open>
  What one \<^verbatim>\<open>await ws.receive_json()\<close> does: it returns the decoded value, raises
  \<^verbatim>\<open>WebSocketDisconnect\<close>, or raises another exception (the text is not valid JSON).
\<close>

datatype inbound = Received json | WebSocketDisconnect | ReceiveError

text \<open>Both \<^verbatim>\<open>except\<close> clauses of \<^verbatim>\<open>ws_endpoint\<close> call \<^verbatim>\<open>disconnect\<close> and leave the loop.\<close>

definition on_exception ::
  "ConnectionManager \<Rightarrow> string \<Rightarrow> string \<Rightarrow> nat \<Rightarrow> string \<Rightarrow> (nat \<Rightarrow> bool) \<Rightarrow> (nat \<Rightarrow> bool)
     \<Rightarrow> ConnectionManager \<times> effect list \<times> session" where
  "on_exception m room uname w now fails1 fails2 =
     (let (m', out) = disconnect m room uname w now fails1 fails2 in (m', out, TERMINATED))"

text \<open>
  One turn of the \<^verbatim>\<open>while True\<close> loop. \<^verbatim>\<open>data.get\<close> on a value that is not an object and
  \<^verbatim>\<open>.strip()\<close> on a value that is not a string raise \<^verbatim>\<open>AttributeError\<close>, which the second
  \<^verbatim>\<open>except\<close> clause catches.
\<close>

definition ws_step ::
  "ConnectionManager \<Rightarrow> string \<Rightarrow> string \<Rightarrow> nat \<Rightarrow> inbound \<Rightarrow> string \<Rightarrow> (nat \<Rightarrow> bool)
     \<Rightarrow> (nat \<Rightarrow> bool) \<Rightarrow> ConnectionManager \<times> effect list \<times> session" where
  "ws_step m room uname w inb now fails1 fails2 =
     (case inb of
        WebSocketDisconnect \<Rightarrow> on_exception m room uname w now fails1 fails2
      | ReceiveError \<Rightarrow> on_exception m room uname w now fails1 fails2
      | Received data \<Rightarrow>
          (case data of
             JObj kvs \<Rightarrow>
               (let msg_type = dict_get kvs ''type'' in
                if msg_type = JStr ''chat'' then
                  (case py_or (dict_get kvs ''message'') (JStr []) of
                     JStr s \<Rightarrow>
                       (let text = strip s in
                        if text = [] then (m, [], ACTIVE)
                        else (let (m', out) = broadcast m room (chat_msg uname text now) fails1
                              in (m', out, ACTIVE)))
                   | _ \<Rightarrow> on_exception m room uname w now fails1 fails2)
                else if msg_type = JStr ''file'' then
                  (let (m', out) =
                         broadcast m room
                           (file_msg uname (dict_get kvs ''url'') (dict_get kvs ''filename'')
                              (dict_get kvs ''mimetype'') now) fails1
                   in (m', out, ACTIVE))
                else (m, [], ACTIVE))
           | _ \<Rightarrow> on_exception m room uname w now fails1 fails2))"

text \<open>
  The loop on a finite list of receives, each with the clock and the send outcomes of its
  turn. When the list is used up the handler is waiting in \<^verbatim>\<open>receive_json\<close>: the session is
  \<open>ACTIVE\<close>.
\<close>

fun ws_loop ::
  "ConnectionManager \<Rightarrow> string \<Rightarrow> string \<Rightarrow> nat
     \<Rightarrow> (inbound \<times> string \<times> (nat \<Rightarrow> bool) \<times> (nat \<Rightarrow> bool)) list
     \<Rightarrow> ConnectionManager \<times> effect list \<times> session" where
  "ws_loop m room uname w [] = (m, [], ACTIVE)"
| "ws_loop m room uname w ((inb, now, fails1, fails2) # rest) =
     (case ws_step m room uname w inb now fails1 fails2 of
        (m', out, ACTIVE) \<Rightarrow>
          (case ws_loop m' room uname w rest of (m'', out', s) \<Rightarrow> (m'', out @ out', s))
      | (m', out, TERMINATED) \<Rightarrow> (m', out, TERMINATED))"

text \<open>\<^verbatim>\<open>ws_endpoint\<close>: \<^verbatim>\<open>connect\<close> is outside the \<^verbatim>\<open>try\<close>, so its exception is the handler's.\<close>

definition ws_endpoint ::
  "ConnectionManager \<Rightarrow> string \<Rightarrow> string \<Rightarrow> nat \<Rightarrow> bool \<Rightarrow> string \<Rightarrow> (nat \<Rightarrow> bool)
     \<Rightarrow> (nat \<Rightarrow> bool) \<Rightarrow> (inbound \<times> string \<times> (nat \<Rightarrow> bool) \<times> (nat \<Rightarrow> bool)) list
     \<Rightarrow> error + ConnectionManager \<times> effect list \<times> session" where
  "ws_endpoint m room uname w accepted now fails1 fails2 frames =
     (case connect m room uname w accepted now fails1 fails2 of
        Inl e \<Rightarrow> Inl e
      | Inr (m1, out1) \<Rightarrow>
          (case ws_loop m1 room uname w frames of (m2, out2, s) \<Rightarrow> Inr (m2, out1 @ out2, s)))"

subsection \<open>Send outcomes used in the examples\<close>

definition no_failure :: "nat \<Rightarrow> bool" where
  "no_failure w = False"

definition all_fail :: "nat \<Rightarrow> bool" where
  "all_fail w = True"

definition only_fails :: "nat \<Rightarrow> nat \<Rightarrow> bool" where
  "only_fails k w = (w = k)"

subsection \<open>Sequences of joins and leaves\<close>

text \<open>
  A join or a leave: room, username, socket, the clock of the operation, and the send
  outcomes of its first and of its second broadcast.
\<close>

datatype op =
    Join string string nat string "nat \<Rightarrow> bool" "nat \<Rightarrow> bool"
  | Leave string string nat string "nat \<Rightarrow> bool" "nat \<Rightarrow> bool"

fun op_room :: "op \<Rightarrow> string" where
  "op_room (Join room uname w now fails1 fails2) = room"
| "op_room (Leave room uname w now fails1 fails2) = room"





fun after_op :: "Client list \<Rightarrow> op \<Rightarrow> Client list" where
  "after_op cs (Join room uname w now fails1 fails2) =
     filter (\<lambda>c. \<not> fails2 (ws c))
       (filter (\<lambda>c. \<not> fails1 (ws c)) (cs @ [\<lparr>username = uname, ws = w\<rparr>]))"
| "after_op cs (Leave room uname w now fails1 fails2) =
     filter (\<lambda>c. \<not> fails2 (ws c))
       (filter (\<lambda>c. \<not> fails1 (ws c)) (filter (\<lambda>c. ws c \<noteq> w) cs))"

fun joined_spec :: "string \<Rightarrow> Client list \<Rightarrow> op list \<Rightarrow> Client list" where
  "joined_spec r cs [] = cs"
| "joined_spec r cs (x # xs) = joined_spec r (if op_room x = r then after_op cs x else cs) xs"

text \<open>The roster messages among the effects.\<close>

fun is_userlist :: "effect \<Rightarrow> bool" where
  "is_userlist (Sent w (JObj kvs)) = (dict_get kvs ''type'' = JStr ''userlist'')"
| "is_userlist (Sent w other) = False"

section \<open>Properties\<close>

subsection \<open>The broadcast loop in closed form\<close>

lemma send_loop_eq:
  "send_loop fails message cs dead out =
     (dead @ filter (\<lambda>c. fails (ws c)) cs,
      out @ map (\<lambda>c. Sent (ws c) message) (filter (\<lambda>c. \<not> fails (ws c)) cs))"
  by (induction cs arbitrary: dead out) simp_all

lemma broadcast_eq:
  "broadcast m room message fails =
     (if filter (\<lambda>c. fails (ws c)) (get_clients m room) \<noteq> []
      then m\<lparr>rooms := (rooms m)(room \<mapsto> filter (\<lambda>c. \<not> fails (ws c)) (get_clients m room))\<rparr>
      else m,
      map (\<lambda>c. Sent (ws c) message) (filter (\<lambda>c. \<not> fails (ws c)) (get_clients m room)))"
proof -
  have f: "filter (\<lambda>c. c \<in> set cs \<longrightarrow> \<not> fails (ws c)) cs = filter (\<lambda>c. \<not> fails (ws c)) cs"
    for cs :: "Client list"
    by (rule filter_cong) auto
  show ?thesis
    by (simp add: broadcast_def send_loop_eq Let_def f)
qed

lemma broadcast_no_failure:
  "broadcast m room message no_failure = (m, map (\<lambda>c. Sent (ws c) message) (get_clients m room))"
  by (simp add: broadcast_eq no_failure_def)

lemma get_clients_broadcast:
  "get_clients (fst (broadcast m room message fails)) r =
     (if r = room then filter (\<lambda>c. \<not> fails (ws c)) (get_clients m room) else get_clients m r)"
  by (auto simp: broadcast_eq get_clients_def filter_empty_conv filter_id_conv split: option.splits)

lemma get_clients_register:
  "get_clients (connect_register m room uname w) r =
     (if r = room then get_clients m room @ [\<lparr>username = uname, ws = w\<rparr>] else get_clients m r)"
  by (simp add: connect_register_def get_clients_def)

lemma get_clients_remove:
  "get_clients (disconnect_remove m room w) r =
     (if r = room then filter (\<lambda>c. ws c \<noteq> w) (get_clients m room) else get_clients m r)"
  by (simp add: disconnect_remove_def get_clients_def Let_def)

lemma strip_blank:
  assumes "\<forall>c\<in>set s. isspace c"
  shows "strip s = []"
proof -
  from assms have d: "dropWhile isspace s = []"
    by simp
  show ?thesis
    by (simp add: strip_def d)
qed

subsection \<open>Empty rooms\<close>

text \<open>
  The two registry steps keep a room that is present non-empty: \<^verbatim>\<open>connect\<close> appends, and
  \<^verbatim>\<open>disconnect\<close> pops the entry when its filtered list is empty.
\<close>

lemma register_no_empty_room:
  "rooms m r \<noteq> Some [] \<Longrightarrow> rooms (connect_register m room uname w) r \<noteq> Some []"
  by (simp add: connect_register_def)

lemma remove_no_empty_room:
  "rooms m r \<noteq> Some [] \<Longrightarrow> rooms (disconnect_remove m room w) r \<noteq> Some []"
  by (simp add: disconnect_remove_def Let_def)

text \<open>
  Claim C1: every room name present in the registry has a non-empty member list; join,
  leave and broadcast with evictions remove a room that they leave without members.

  \<^verbatim>\<open>broadcast\<close> does not: its cleanup stores the filtered list under the room's name and
  never pops the entry. Room \<open>demo\<close> holds the one client carol on socket 7; a broadcast
  in which the send to socket 7 raises leaves \<open>demo\<close> in the registry with the empty list.
\<close>

theorem broadcast_keeps_empty_room:
  "rooms (fst (broadcast (connect_register init_manager ''demo'' ''carol'' 7) ''demo''
      (system_msg ''dave bergabung ke grup'' ''2024-01-01T00:00:00'') all_fail)) ''demo'' = Some []"
  by (simp add: broadcast_eq connect_register_def init_manager_def get_clients_def all_fail_def)

subsection \<open>One failing send\<close>

lemma filter_all_but_one:
  assumes "k < length cs" and "P (cs ! k)" and "\<forall>j<length cs. j \<noteq> k \<longrightarrow> \<not> P (cs ! j)"
  shows "filter (\<lambda>c. \<not> P c) cs = take k cs @ drop (Suc k) cs"
    and "filter P cs = [cs ! k]"
proof -
  have t: "\<forall>x\<in>set (take k cs). \<not> P x"
  proof
    fix x assume "x \<in> set (take k cs)"
    then obtain j where "j < length (take k cs)" "x = take k cs ! j"
      by (auto simp: in_set_conv_nth)
    with assms show "\<not> P x" by simp
  qed
  have d: "\<forall>x\<in>set (drop (Suc k) cs). \<not> P x"
  proof
    fix x assume "x \<in> set (drop (Suc k) cs)"
    then obtain j where "j < length (drop (Suc k) cs)" "x = drop (Suc k) cs ! j"
      by (auto simp: in_set_conv_nth)
    with assms show "\<not> P x" by simp
  qed
  have cs: "cs = take k cs @ cs ! k # drop (Suc k) cs"
    using assms(1) by (rule id_take_nth_drop)
  have "filter (\<lambda>c. \<not> P c) cs = filter (\<lambda>c. \<not> P c) (take k cs @ cs ! k # drop (Suc k) cs)"
    using cs by simp
  also have "\<dots> = take k cs @ drop (Suc k) cs"
    using t d assms(2) by (simp add: filter_id_conv)
  finally show "filter (\<lambda>c. \<not> P c) cs = take k cs @ drop (Suc k) cs" .
  have "filter P cs = filter P (take k cs @ cs ! k # drop (Suc k) cs)"
    using cs by simp
  also have "\<dots> = [cs ! k]"
    using t d assms(2) by (simp add: filter_empty_conv)
  finally show "filter P cs = [cs ! k]" .
qed

text \<open>
  When exactly the send to member \<open>k\<close> of a room raises, every other member receives
  the message, the broadcast returns, and the room's list is the old one without member
  \<open>k\<close>: it has one member less. The entry stays in the registry, also when that list is
  empty.
\<close>

lemma broadcast_one_failure:
  assumes "k < length (get_clients m room)"
    and "fails (ws (get_clients m room ! k))"
    and "\<forall>j<length (get_clients m room). j \<noteq> k \<longrightarrow> \<not> fails (ws (get_clients m room ! j))"
  shows "broadcast m room message fails =
           (m\<lparr>rooms := (rooms m)(room \<mapsto>
                 take k (get_clients m room) @ drop (Suc k) (get_clients m room))\<rparr>,
            map (\<lambda>c. Sent (ws c) message)
              (take k (get_clients m room) @ drop (Suc k) (get_clients m room)))"
    and "length (get_clients (fst (broadcast m room message fails)) room) =
           length (get_clients m room) - 1"
proof -
  let ?cs = "get_clients m room"
  have a: "filter (\<lambda>c. \<not> fails (ws c)) ?cs = take k ?cs @ drop (Suc k) ?cs"
    using filter_all_but_one(1) [of k ?cs "\<lambda>c. fails (ws c)"] assms by simp
  have b: "filter (\<lambda>c. fails (ws c)) ?cs = [?cs ! k]"
    using filter_all_but_one(2) [of k ?cs "\<lambda>c. fails (ws c)"] assms by simp
  show "broadcast m room message fails =
           (m\<lparr>rooms := (rooms m)(room \<mapsto> take k ?cs @ drop (Suc k) ?cs)\<rparr>,
            map (\<lambda>c. Sent (ws c) message) (take k ?cs @ drop (Suc k) ?cs))"
    by (simp add: broadcast_eq a b)
  show "length (get_clients (fst (broadcast m room message fails)) room) = length ?cs - 1"
    using assms(1) by (simp add: get_clients_broadcast a)
qed

text \<open>
  Claim C4: in a broadcast to a room of N members in which exactly the send to member k
  raises, the other N - 1 members receive the event, no error reaches the caller, and the
  room has N - 1 members afterwards, its entry removed from the registry when N - 1 = 0.

  For N = 1 the entry is not removed. Room \<open>lobby\<close> holds the one client dave on socket
  3 and the send to socket 3 raises: nothing is delivered, and \<open>lobby\<close> stays in the
  registry with the empty list.
\<close>

theorem broadcast_last_member_fails:
  "rooms (fst (broadcast (connect_register init_manager ''lobby'' ''dave'' 3) ''lobby''
      (chat_msg ''erin'' ''hello'' ''2024-01-01T00:00:00'') (only_fails 3))) ''lobby'' = Some []
   \<and> snd (broadcast (connect_register init_manager ''lobby'' ''dave'' 3) ''lobby''
      (chat_msg ''erin'' ''hello'' ''2024-01-01T00:00:00'') (only_fails 3)) = []"
  by (simp add: broadcast_eq connect_register_def init_manager_def get_clients_def only_fails_def)

subsection \<open>Operations in which no send fails\<close>


lemma disconnect_no_failure:
  "disconnect m room uname w now no_failure no_failure =
     (disconnect_remove m room w,
      map (\<lambda>c. Sent (ws c) (system_msg (uname @ '' keluar dari grup'') now))
        (filter (\<lambda>c. ws c \<noteq> w) (get_clients m room)) @
      map (\<lambda>c. Sent (ws c)
             (userlist_msg (map username (filter (\<lambda>c. ws c \<noteq> w) (get_clients m room)))))
        (filter (\<lambda>c. ws c \<noteq> w) (get_clients m room)))"
  by (simp add: disconnect_def broadcast_userlist_def broadcast_no_failure Let_def
      get_usernames_def get_clients_remove)

lemma connect_accepted_no_failure:
  "connect_accepted m room uname w now no_failure no_failure =
     (connect_register m room uname w,
      map (\<lambda>c. Sent (ws c) (userlist_msg (map username (get_clients m room) @ [uname])))
        (get_clients m room @ [\<lparr>username = uname, ws = w\<rparr>]) @
      map (\<lambda>c. Sent (ws c) (system_msg (uname @ '' bergabung ke grup'') now))
        (get_clients m room @ [\<lparr>username = uname, ws = w\<rparr>]))"
  by (simp add: connect_accepted_def broadcast_userlist_def broadcast_no_failure Let_def
      get_usernames_def get_clients_register)

lemma remove_twice: "disconnect_remove (disconnect_remove m room w) room w = disconnect_remove m room w"
  by (simp add: disconnect_remove_def Let_def get_clients_def)

subsection \<open>The session handler\<close>

lemma ws_loop_skip:
  "ws_step m room uname w inb now fails1 fails2 = (m, [], ACTIVE) \<Longrightarrow>
     ws_loop m room uname w ((inb, now, fails1, fails2) # rest) = ws_loop m room uname w rest"
  by (simp split: prod.splits)

text \<open>
  Claim C8: an inbound chat event whose message text is empty, or is whitespace only, makes
  no outbound event and has no other effect: the registry is as before, nothing is sent,
  no exception is raised, and the session stays \<open>ACTIVE\<close>, the loop going on with the
  next receive.
\<close>

theorem blank_chat_discarded:
  assumes "dict_get kvs ''type'' = JStr ''chat''"
    and "dict_get kvs ''message'' = JStr s"
    and "\<forall>c\<in>set s. isspace c"
  shows "ws_step m room uname w (Received (JObj kvs)) now fails1 fails2 = (m, [], ACTIVE) \<and>
         ws_loop m room uname w ((Received (JObj kvs), now, fails1, fails2) # rest) =
           ws_loop m room uname w rest"
proof -
  have p: "py_or (JStr s) (JStr []) = JStr s \<or> py_or (JStr s) (JStr []) = JStr []"
    by (simp add: py_or_def)
  have b: "strip s = []"
    using assms(3) by (rule strip_blank)
  have e: "strip [] = []"
    by (simp add: strip_def)
  have st: "ws_step m room uname w (Received (JObj kvs)) now fails1 fails2 = (m, [], ACTIVE)"
    using p by (auto simp: ws_step_def assms(1,2) b e)
  from st ws_loop_skip [OF st] show ?thesis by simp
qed

text \<open>Carol, alone in room \<open>demo\<close>, sends a chat event of three spaces.\<close>

theorem blank_chat_discarded_witness:
  "dict_get [(''type'', JStr ''chat''), (''message'', JStr ''   '')] ''type'' = JStr ''chat'' \<and>
   dict_get [(''type'', JStr ''chat''), (''message'', JStr ''   '')] ''message'' = JStr ''   '' \<and>
   isspace (CHR '' '') \<and>
   ws_step (connect_register init_manager ''demo'' ''carol'' 7) ''demo'' ''carol'' 7
     (Received (JObj [(''type'', JStr ''chat''), (''message'', JStr ''   '')]))
     ''2024-01-01T00:00:00'' no_failure no_failure =
   (connect_register init_manager ''demo'' ''carol'' 7, [], ACTIVE)"
  using blank_chat_discarded [of "[(''type'', JStr ''chat''), (''message'', JStr ''   '')]" "''   ''"
      "connect_register init_manager ''demo'' ''carol'' 7" "''demo''" "''carol''" 7
      "''2024-01-01T00:00:00''" no_failure no_failure "[]"]
  by (simp add: dict_get_def isspace_def)

text \<open>
  Claim C2: every malformed inbound event, undecodable or of an unrecognized shape, is
  dropped silently, with no broadcast, and the session stays \<open>ACTIVE\<close>.

  This fails for the undecodable event: \<^verbatim>\<open>receive_json\<close> raises, the clause
  \<^verbatim>\<open>except Exception\<close> calls \<^verbatim>\<open>disconnect\<close>, and the handler returns. Alice and bob are
  in room \<open>demo\<close>; alice's socket delivers text that is not JSON. Bob receives the
  notice that alice left and the new roster, and alice's session is \<open>TERMINATED\<close>.
\<close>

theorem undecodable_event_terminates:
  "snd (ws_step (connect_register (connect_register init_manager ''demo'' ''alice'' 1) ''demo'' ''bob'' 2)
        ''demo'' ''alice'' 1 ReceiveError ''2024-01-01T00:00:00'' no_failure no_failure) =
   ([Sent 2 (system_msg ''alice keluar dari grup'' ''2024-01-01T00:00:00''),
     Sent 2 (userlist_msg [''bob''])], TERMINATED)"
  by (simp add: ws_step_def on_exception_def disconnect_no_failure connect_register_def
      init_manager_def get_clients_def)

text \<open>
  Claim C2, amended: an inbound event that decodes to a JSON object whose \<^verbatim>\<open>type\<close> is
  neither \<^verbatim>\<open>chat\<close> nor \<^verbatim>\<open>file\<close> is dropped silently: the registry is as before, nothing is
  sent, the session stays \<open>ACTIVE\<close> and the loop goes on with the next receive. An
  undecodable event ends the session: the handler runs \<^verbatim>\<open>disconnect\<close> and the session is
  \<open>TERMINATED\<close>.
\<close>

theorem unrecognized_type_ignored:
  assumes "dict_get kvs ''type'' \<noteq> JStr ''chat''"
    and "dict_get kvs ''type'' \<noteq> JStr ''file''"
  shows "ws_step m room uname w (Received (JObj kvs)) now fails1 fails2 = (m, [], ACTIVE) \<and>
         ws_loop m room uname w ((Received (JObj kvs), now, fails1, fails2) # rest) =
           ws_loop m room uname w rest \<and>
         ws_step m room uname w ReceiveError now fails1 fails2 =
           (fst (disconnect m room uname w now fails1 fails2),
            snd (disconnect m room uname w now fails1 fails2), TERMINATED)"
proof -
  have st: "ws_step m room uname w (Received (JObj kvs)) now fails1 fails2 = (m, [], ACTIVE)"
    using assms by (simp add: ws_step_def)
  have er: "ws_step m room uname w ReceiveError now fails1 fails2 =
           (fst (disconnect m room uname w now fails1 fails2),
            snd (disconnect m room uname w now fails1 fails2), TERMINATED)"
    by (simp add: ws_step_def on_exception_def split: prod.splits)
  from st ws_loop_skip [OF st] er show ?thesis by simp
qed

text \<open>Carol sends an event of type \<^verbatim>\<open>typing\<close>.\<close>

theorem unrecognized_type_ignored_witness:
  "dict_get [(''type'', JStr ''typing'')] ''type'' \<noteq> JStr ''chat'' \<and>
   dict_get [(''type'', JStr ''typing'')] ''type'' \<noteq> JStr ''file'' \<and>
   ws_step (connect_register init_manager ''demo'' ''carol'' 7) ''demo'' ''carol'' 7
     (Received (JObj [(''type'', JStr ''typing'')]))
     ''2024-01-01T00:00:00'' no_failure no_failure =
   (connect_register init_manager ''demo'' ''carol'' 7, [], ACTIVE)"
  using unrecognized_type_ignored [of "[(''type'', JStr ''typing'')]"
      "connect_register init_manager ''demo'' ''carol'' 7" "''demo''" "''carol''" 7
      "''2024-01-01T00:00:00''" no_failure no_failure "[]"]
  by (simp add: dict_get_def)

text \<open>
  Claim C7: an inbound file event is broadcast as a file event to every current member of
  the room, the sender included; its url, filename and mimetype are the values the client
  supplied, and the sender's username and the server's clock are added. A member receives
  it when the send to its socket does not raise.
\<close>

theorem file_event_broadcast:
  assumes "dict_get kvs ''type'' = JStr ''file''"
  shows "ws_step m room uname w (Received (JObj kvs)) now fails1 fails2 =
           (fst (broadcast m room
                   (file_msg uname (dict_get kvs ''url'') (dict_get kvs ''filename'')
                      (dict_get kvs ''mimetype'') now) fails1),
            map (\<lambda>c. Sent (ws c)
                   (file_msg uname (dict_get kvs ''url'') (dict_get kvs ''filename'')
                      (dict_get kvs ''mimetype'') now))
              (filter (\<lambda>c. \<not> fails1 (ws c)) (get_clients m room)),
            ACTIVE) \<and>
         file_msg uname (dict_get kvs ''url'') (dict_get kvs ''filename'')
             (dict_get kvs ''mimetype'') now =
           JObj [(''type'', JStr ''file''), (''username'', JStr uname),
                 (''url'', dict_get kvs ''url''), (''filename'', dict_get kvs ''filename''),
                 (''mimetype'', dict_get kvs ''mimetype''), (''time'', JStr now)] \<and>
         (\<lparr>username = uname, ws = w\<rparr> \<in> set (get_clients m room) \<and> \<not> fails1 w \<longrightarrow>
            Sent w (file_msg uname (dict_get kvs ''url'') (dict_get kvs ''filename'')
                      (dict_get kvs ''mimetype'') now)
              \<in> set (fst (snd (ws_step m room uname w (Received (JObj kvs)) now fails1 fails2))))"
proof -
  let ?msg = "file_msg uname (dict_get kvs ''url'') (dict_get kvs ''filename'')
                (dict_get kvs ''mimetype'') now"
  have st: "ws_step m room uname w (Received (JObj kvs)) now fails1 fails2 =
      (fst (broadcast m room ?msg fails1),
       map (\<lambda>c. Sent (ws c) ?msg) (filter (\<lambda>c. \<not> fails1 (ws c)) (get_clients m room)),
       ACTIVE)"
    using assms by (simp add: ws_step_def broadcast_eq)
  have sender: "Sent w ?msg \<in> set (map (\<lambda>c. Sent (ws c) ?msg)
        (filter (\<lambda>c. \<not> fails1 (ws c)) (get_clients m room)))"
    if "\<lparr>username = uname, ws = w\<rparr> \<in> set (get_clients m room)" "\<not> fails1 w"
  proof -
    from that have "\<lparr>username = uname, ws = w\<rparr>
        \<in> set (filter (\<lambda>c. \<not> fails1 (ws c)) (get_clients m room))"
      by simp
    then have "(\<lambda>c. Sent (ws c) ?msg) \<lparr>username = uname, ws = w\<rparr>
        \<in> (\<lambda>c. Sent (ws c) ?msg) ` set (filter (\<lambda>c. \<not> fails1 (ws c)) (get_clients m room))"
      by (rule imageI)
    then show ?thesis by simp
  qed
  have fm: "?msg = JObj [(''type'', JStr ''file''), (''username'', JStr uname),
                 (''url'', dict_get kvs ''url''), (''filename'', dict_get kvs ''filename''),
                 (''mimetype'', dict_get kvs ''mimetype''), (''time'', JStr now)]"
    by (simp add: file_msg_def)
  show ?thesis
    using sender by (simp only: st fm fst_conv snd_conv) simp
qed

text \<open>Alice announces an upload in room \<open>demo\<close>; alice and bob both receive it.\<close>

theorem file_event_broadcast_witness:
  "dict_get [(''type'', JStr ''file''), (''url'', JStr ''/uploads/a.png''),
             (''filename'', JStr ''a.png''), (''mimetype'', JStr ''image/png'')] ''type'' = JStr ''file'' \<and>
   snd (ws_step (connect_register (connect_register init_manager ''demo'' ''alice'' 1) ''demo'' ''bob'' 2)
     ''demo'' ''alice'' 1
     (Received (JObj [(''type'', JStr ''file''), (''url'', JStr ''/uploads/a.png''),
             (''filename'', JStr ''a.png''), (''mimetype'', JStr ''image/png'')]))
     ''2024-01-01T00:00:00'' no_failure no_failure) =
   ([Sent 1 (JObj [(''type'', JStr ''file''), (''username'', JStr ''alice''),
                   (''url'', JStr ''/uploads/a.png''), (''filename'', JStr ''a.png''),
                   (''mimetype'', JStr ''image/png''), (''time'', JStr ''2024-01-01T00:00:00'')]),
     Sent 2 (JObj [(''type'', JStr ''file''), (''username'', JStr ''alice''),
                   (''url'', JStr ''/uploads/a.png''), (''filename'', JStr ''a.png''),
                   (''mimetype'', JStr ''image/png''), (''time'', JStr ''2024-01-01T00:00:00'')])],
    ACTIVE)"
  using file_event_broadcast [of "[(''type'', JStr ''file''), (''url'', JStr ''/uploads/a.png''),
             (''filename'', JStr ''a.png''), (''mimetype'', JStr ''image/png'')]"
      "connect_register (connect_register init_manager ''demo'' ''alice'' 1) ''demo'' ''bob'' 2"
      "''demo''" "''alice''" 1 "''2024-01-01T00:00:00''" no_failure no_failure]
  by (simp add: dict_get_def connect_register_def init_manager_def get_clients_def no_failure_def
      file_msg_def)

text \<open>
  Claim C10: an inbound file event that omits any of the keys url, filename and mimetype
  is not rejected and raises nothing: the file event is broadcast all the same, each
  missing field null, with the sender's username and the server's clock, and the session
  stays \<open>ACTIVE\<close>.
\<close>

theorem file_event_missing_keys:
  assumes "dict_get kvs ''type'' = JStr ''file''"
  shows "snd (ws_step m room uname w (Received (JObj kvs)) now fails1 fails2) =
           (map (\<lambda>c. Sent (ws c)
                   (JObj [(''type'', JStr ''file''), (''username'', JStr uname),
                          (''url'', case map_of kvs ''url'' of None \<Rightarrow> JNull | Some v \<Rightarrow> v),
                          (''filename'', case map_of kvs ''filename'' of None \<Rightarrow> JNull | Some v \<Rightarrow> v),
                          (''mimetype'', case map_of kvs ''mimetype'' of None \<Rightarrow> JNull | Some v \<Rightarrow> v),
                          (''time'', JStr now)]))
              (filter (\<lambda>c. \<not> fails1 (ws c)) (get_clients m room)),
            ACTIVE)"
proof -
  have "ws_step m room uname w (Received (JObj kvs)) now fails1 fails2 =
          (fst (broadcast m room
                  (file_msg uname (dict_get kvs ''url'') (dict_get kvs ''filename'')
                     (dict_get kvs ''mimetype'') now) fails1),
           snd (broadcast m room
                  (file_msg uname (dict_get kvs ''url'') (dict_get kvs ''filename'')
                     (dict_get kvs ''mimetype'') now) fails1),
           ACTIVE)"
    using assms by (simp add: ws_step_def split: prod.splits)
  then show ?thesis
    by (simp add: broadcast_eq file_msg_def dict_get_def)
qed

text \<open>Carol sends a file event with a filename only: url and mimetype go out as null.\<close>

theorem file_event_missing_keys_witness:
  "dict_get [(''type'', JStr ''file''), (''filename'', JStr ''a.png'')] ''type'' = JStr ''file'' \<and>
   snd (ws_step (connect_register init_manager ''demo'' ''carol'' 7) ''demo'' ''carol'' 7
     (Received (JObj [(''type'', JStr ''file''), (''filename'', JStr ''a.png'')]))
     ''2024-01-01T00:00:00'' no_failure no_failure) =
   ([Sent 7 (JObj [(''type'', JStr ''file''), (''username'', JStr ''carol''),
                   (''url'', JNull), (''filename'', JStr ''a.png''),
                   (''mimetype'', JNull), (''time'', JStr ''2024-01-01T00:00:00'')])],
    ACTIVE)"
  using file_event_missing_keys [of "[(''type'', JStr ''file''), (''filename'', JStr ''a.png'')]"
      "connect_register init_manager ''demo'' ''carol'' 7"
      "''demo''" "''carol''" 7 "''2024-01-01T00:00:00''" no_failure no_failure]
  by (simp add: dict_get_def connect_register_def init_manager_def get_clients_def no_failure_def)

subsection \<open>Leaving\<close>

text \<open>
  Claim C3: a second leave for a connection that was already removed has no observable
  effect: the registry is unchanged and no second notice that the user left is broadcast
  to the remaining members.

  The second call is not silent. Alice and bob are in room \<open>demo\<close>; alice is
  disconnected twice. The second call sends bob the notice and the roster again.
\<close>

theorem second_leave_not_silent:
  "snd (disconnect
          (fst (disconnect
                  (connect_register (connect_register init_manager ''demo'' ''alice'' 1) ''demo'' ''bob'' 2)
                  ''demo'' ''alice'' 1 ''2024-01-01T00:00:00'' no_failure no_failure))
          ''demo'' ''alice'' 1 ''2024-01-01T00:00:05'' no_failure no_failure) =
   [Sent 2 (system_msg ''alice keluar dari grup'' ''2024-01-01T00:00:05''),
    Sent 2 (userlist_msg [''bob''])]"
  by (simp add: disconnect_no_failure disconnect_remove_def connect_register_def
      init_manager_def get_clients_def)

text \<open>
  Claim C3, amended: when no send fails, a second leave for a connection that was already
  removed leaves the registry unchanged, and it broadcasts the notice that the user left
  and the roster once more to every remaining member of the room.
\<close>

theorem second_leave_repeats_notice:
  "disconnect (fst (disconnect m room uname w now no_failure no_failure)) room uname w now'
       no_failure no_failure =
     (fst (disconnect m room uname w now no_failure no_failure),
      map (\<lambda>c. Sent (ws c) (system_msg (uname @ '' keluar dari grup'') now'))
        (filter (\<lambda>c. ws c \<noteq> w) (get_clients m room)) @
      map (\<lambda>c. Sent (ws c)
             (userlist_msg (map username (filter (\<lambda>c. ws c \<noteq> w) (get_clients m room)))))
        (filter (\<lambda>c. ws c \<noteq> w) (get_clients m room)))"
  by (simp add: disconnect_no_failure remove_twice get_clients_remove)

text \<open>
  Claim C9: removal goes by the channel, not by the username. When two connections of a
  room carry the same username on distinct channels, the leave of one removes that
  connection and no other: the room's list afterwards is the old list without the entries
  of the leaving channel, and the other connection of that username is still a member.
\<close>

theorem leave_removes_by_channel:
  assumes "c1 \<in> set (get_clients m room)" and "c2 \<in> set (get_clients m room)"
    and "username c1 = username c2" and "ws c1 \<noteq> ws c2"
  shows "get_clients (disconnect_remove m room (ws c1)) room =
           filter (\<lambda>c. ws c \<noteq> ws c1) (get_clients m room) \<and>
         c1 \<notin> set (get_clients (disconnect_remove m room (ws c1)) room) \<and>
         c2 \<in> set (get_clients (disconnect_remove m room (ws c1)) room) \<and>
         get_clients (fst (disconnect m room (username c1) (ws c1) now no_failure no_failure)) room =
           filter (\<lambda>c. ws c \<noteq> ws c1) (get_clients m room)"
  using assms by (simp add: get_clients_remove disconnect_no_failure)

text \<open>Two connections named sam, on sockets 1 and 2; socket 1 leaves.\<close>

theorem leave_removes_by_channel_witness:
  "\<lparr>username = ''sam'', ws = 1\<rparr> \<in> set (get_clients
      (connect_register (connect_register init_manager ''demo'' ''sam'' 1) ''demo'' ''sam'' 2) ''demo'') \<and>
   \<lparr>username = ''sam'', ws = 2\<rparr> \<in> set (get_clients
      (connect_register (connect_register init_manager ''demo'' ''sam'' 1) ''demo'' ''sam'' 2) ''demo'') \<and>
   get_clients (disconnect_remove
      (connect_register (connect_register init_manager ''demo'' ''sam'' 1) ''demo'' ''sam'' 2)
      ''demo'' 1) ''demo'' = [\<lparr>username = ''sam'', ws = 2\<rparr>]"
  using leave_removes_by_channel [of "\<lparr>username = ''sam'', ws = 1\<rparr>"
      "connect_register (connect_register init_manager ''demo'' ''sam'' 1) ''demo'' ''sam'' 2"
      "''demo''" "\<lparr>username = ''sam'', ws = 2\<rparr>" "''2024-01-01T00:00:00''"]
  by (simp add: connect_register_def init_manager_def get_clients_def)

text \<open>
  Claim C6: the join of a room name that the registry does not hold creates the entry,
  with the joining connection as its one member (and the whole of \<^verbatim>\<open>connect\<close> keeps it so
  when the sends to the joiner do not raise). The leave of the last member of a room
  removes the entry, whatever the sends do, and the roster of that name is then empty.
\<close>

theorem join_creates_last_leave_removes:
  "(rooms m room = None \<longrightarrow>
      rooms (connect_register m room uname w) room = Some [\<lparr>username = uname, ws = w\<rparr>] \<and>
      (\<not> fails1 w \<and> \<not> fails2 w \<longrightarrow>
         connect m room uname w True now fails1 fails2 =
           Inr (connect_register m room uname w,
                [Sent w (userlist_msg [uname]),
                 Sent w (system_msg (uname @ '' bergabung ke grup'') now)]))) \<and>
   (rooms m room = Some [c] \<and> ws c = w \<longrightarrow>
      rooms (disconnect_remove m room w) room = None \<and>
      rooms (fst (disconnect m room uname w now fails1 fails2)) room = None \<and>
      get_usernames (fst (disconnect m room uname w now fails1 fails2)) room = [])"
proof -
  have a: "rooms (connect_register m room uname w) room = Some [\<lparr>username = uname, ws = w\<rparr>]"
    if "rooms m room = None"
    using that by (simp add: connect_register_def get_clients_def)
  have b: "connect m room uname w True now fails1 fails2 =
           Inr (connect_register m room uname w,
                [Sent w (userlist_msg [uname]),
                 Sent w (system_msg (uname @ '' bergabung ke grup'') now)])"
    if "rooms m room = None" "\<not> fails1 w" "\<not> fails2 w"
  proof -
    have g: "get_clients (connect_register m room uname w) room = [\<lparr>username = uname, ws = w\<rparr>]"
    proof -
      have "get_clients m room = []"
        using that(1) by (simp add: get_clients_def)
      then show ?thesis
        by (simp add: get_clients_register)
    qed
    show ?thesis
      using that(2,3)
      by (simp add: connect_def connect_accepted_def broadcast_userlist_def get_usernames_def
          broadcast_eq g Let_def)
  qed
  have r: "disconnect_remove m room w = m\<lparr>rooms := (rooms m)(room := None)\<rparr>"
    if "rooms m room = Some [c]" "ws c = w"
    using that by (simp add: disconnect_remove_def get_clients_def)
  have d: "disconnect m room uname w now fails1 fails2 = (m\<lparr>rooms := (rooms m)(room := None)\<rparr>, [])"
    if "rooms m room = Some [c]" "ws c = w"
    by (simp add: disconnect_def r [OF that] broadcast_userlist_def get_usernames_def
        broadcast_eq get_clients_def Let_def)
  show ?thesis
    using a b r d by (simp add: get_usernames_def get_clients_def)
qed

text \<open>Carol joins the unknown room \<open>demo\<close> and leaves it again.\<close>

theorem join_creates_last_leave_removes_witness:
  "rooms init_manager ''demo'' = None \<and>
   rooms (connect_register init_manager ''demo'' ''carol'' 7) ''demo'' =
     Some [\<lparr>username = ''carol'', ws = 7\<rparr>] \<and>
   rooms (fst (disconnect (connect_register init_manager ''demo'' ''carol'' 7) ''demo'' ''carol'' 7
     ''2024-01-01T00:00:00'' no_failure no_failure)) ''demo'' = None \<and>
   get_usernames (fst (disconnect (connect_register init_manager ''demo'' ''carol'' 7) ''demo'' ''carol'' 7
     ''2024-01-01T00:00:00'' no_failure no_failure)) ''demo'' = []"
  using join_creates_last_leave_removes [of init_manager "''demo''" "''carol''" 7 no_failure
      no_failure "''2024-01-01T00:00:00''" "\<lparr>username = ''carol'', ws = 7\<rparr>"]
    join_creates_last_leave_removes [of "connect_register init_manager ''demo'' ''carol'' 7"
      "''demo''" "''carol''" 7 no_failure no_failure "''2024-01-01T00:00:00''"
      "\<lparr>username = ''carol'', ws = 7\<rparr>"]
  by (simp add: init_manager_def connect_register_def get_clients_def)

subsection \<open>The roster\<close>

lemma is_userlist_msgs [simp]:
  "is_userlist (Sent w (userlist_msg users))"
  "\<not> is_userlist (Sent w (system_msg text now))"
  by (simp_all add: userlist_msg_def system_msg_def dict_get_def)





lemma joined_spec_append:
  "joined_spec r cs (xs @ ys) = joined_spec r (joined_spec r cs xs) ys"
  by (induction xs arbitrary: cs) simp_all






end
